theory Spec2Isabelle
  imports Main "HOL-Library.AList"
begin

section \<open>Netlist generation for SPICE: a model of simulation/spice.py\<close>

text \<open>
  The module builds an electrical netlist (class \<open>NetList\<close>), lets sub-circuits
  (class \<open>SubCircuit\<close>, a subclass of \<open>NetList\<close>) be registered and instantiated, writes
  the netlist to a file and loads a sub-circuit from a file.

  Conventions of the embedding:
  \<^item> a method that mutates \<open>self\<close> takes the object and returns an outcome: \<open>Done\<close> with
    the mutated object, or \<open>Raised\<close> with the exception and the object as the mutations
    made before the \<open>raise\<close> left it;
  \<^item> Python's exceptions keep their Python names. The spec's error names map to them:
    \<open>UnregisteredSubcircuit\<close> and \<open>InvalidDeviceType\<close> are \<open>ValueError\<close>,
    \<open>InvalidArgumentType\<close> is \<open>TypeError\<close>; the source has no exception for
    \<open>DuplicateRegistration\<close> or \<open>TruncatedInput\<close>;
  \<^item> a Python \<open>dict\<close> is an association list with distinct keys in insertion order;
    \<open>d[k] = v\<close> is \<open>AList.update k v d\<close> and \<open>d[k]\<close> is \<open>map_of d k\<close>, a missing key
    raising \<open>KeyError\<close>;
  \<^item> names that start with an underscore in the source lose it
    (\<open>_END_OF_LINE\<close> is \<open>END_OF_LINE\<close>, \<open>_write_header\<close> is \<open>write_header\<close>);
  \<^item> console output (\<open>print\<close>) is not modelled.
\<close>

subsection \<open>Python values and built-ins used by the module\<close>

datatype error = TypeError | ValueError | KeyError | IndexError | AttributeError | FileNotFoundError

datatype 'a outcome = Done 'a | Raised error 'a

text \<open>
  A Python \<open>float\<close>: a finite value \<open>(-1)^s * m * 2^e\<close> (every IEEE double, the two zeros
  included, has this form), an infinity with its sign, or a NaN.
\<close>

datatype pyfloat = Finite bool nat int | Infinity bool | NaN

definition END_OF_LINE :: string where
  "END_OF_LINE = [CHR 0x0A]"

definition ZFILL_WIDTH :: nat where
  "ZFILL_WIDTH = 5"

text \<open>\<open>' '.join(nodes)\<close>\<close>

fun join_space :: "string list \<Rightarrow> string" where
  "join_space [] = []"
| "join_space [x] = x"
| "join_space (x # y # ys) = x @ '' '' @ join_space (y # ys)"

text \<open>
  \<open>str(n)\<close> and \<open>'%d' % n\<close> for an \<open>int\<close>: decimal digits, a minus sign when negative.
  \<open>str_digits\<close> renders a non-negative integer.
\<close>

definition digit_char :: "nat \<Rightarrow> char" where
  "digit_char d = ''0123456789'' ! d"

function str_digits :: "int \<Rightarrow> string" where
  "str_digits n =
     (if n < 10 then [digit_char (nat n)]
      else str_digits (n div 10) @ [digit_char (nat (n mod 10))])"
  by pat_completeness auto
termination
  by (relation "measure nat") auto

declare str_digits.simps [simp del]

definition str_int :: "int \<Rightarrow> string" where
  "str_int i = (if i < 0 then ''-'' @ str_digits (- i) else str_digits i)"

text \<open>
  \<open>s.zfill(width)\<close>: pads with zeros on the left up to \<open>width\<close> characters, after a
  leading sign if there is one; a string that is long enough is returned as it is.
\<close>

definition zfill :: "nat \<Rightarrow> string \<Rightarrow> string" where
  "zfill width s =
     (if width \<le> length s then s
      else (case s of
              [] \<Rightarrow> replicate width CHR ''0''
            | c # cs \<Rightarrow>
                if c = CHR ''+'' \<or> c = CHR ''-''
                then c # replicate (width - length s) CHR ''0'' @ cs
                else replicate (width - length s) CHR ''0'' @ s))"

text \<open>
  \<open>'%.6e' % value\<close>: the correctly rounded (half to even) decimal rendering with one
  digit before the point, six after it, and an exponent of at least two digits. The
  value is the fraction \<open>p / q\<close> of two positive integers.
  \<open>dec_exp_up p q\<close> is the largest \<open>k\<close> with \<open>10^k * q \<le> p\<close> (for \<open>q \<le> p\<close>),
  \<open>dec_exp_down p q\<close> the smallest \<open>j\<close> with \<open>q \<le> 10^j * p\<close> (for \<open>p < q\<close>).
\<close>

function dec_exp_up :: "int \<Rightarrow> int \<Rightarrow> nat" where
  "dec_exp_up p q = (if 0 < q \<and> 10 * q \<le> p then Suc (dec_exp_up p (10 * q)) else 0)"
  by pat_completeness auto
termination
  by (relation "measure (\<lambda>(p, q). nat (p - q))") auto

function dec_exp_down :: "int \<Rightarrow> int \<Rightarrow> nat" where
  "dec_exp_down p q = (if 0 < p \<and> p < q then Suc (dec_exp_down (10 * p) q) else 0)"
  by pat_completeness auto
termination
  by (relation "measure (\<lambda>(p, q). nat (q - p))") auto

declare dec_exp_up.simps [simp del] dec_exp_down.simps [simp del]

definition round_half_even :: "int \<Rightarrow> int \<Rightarrow> int" where
  "round_half_even num den =
     (let q = num div den; r = num mod den
      in if 2 * r < den then q
         else if den < 2 * r then q + 1
         else if even q then q else q + 1)"

text \<open>
  The decimal exponent \<open>k\<close> of \<open>p / q\<close> (\<open>10^k \<le> p / q < 10^(k+1)\<close>), the value scaled to
  seven digits and rounded, and the rendering of the seven digits \<open>n0\<close> with the exponent:
  when rounding has carried to eight digits the exponent is one more.
\<close>

definition decimal_exponent :: "int \<Rightarrow> int \<Rightarrow> int" where
  "decimal_exponent p q =
     (if q \<le> p then int (dec_exp_up p q) else - int (dec_exp_down p q))"

definition scaled_mantissa :: "int \<Rightarrow> int \<Rightarrow> int \<Rightarrow> int" where
  "scaled_mantissa p q k =
     round_half_even (if k \<le> 6 then p * 10 ^ nat (6 - k) else p)
                     (if k \<le> 6 then q else q * 10 ^ nat (k - 6))"

definition render_e6 :: "int \<Rightarrow> int \<Rightarrow> string" where
  "render_e6 n0 k =
     (let n = (if 10 ^ 7 \<le> n0 then n0 div 10 else n0);
          k' = (if 10 ^ 7 \<le> n0 then k + 1 else k)
      in str_digits (n div 10 ^ 6) @ ''.'' @ zfill 6 (str_digits (n mod 10 ^ 6)) @ ''e'' @
         (if k' < 0 then ''-'' else ''+'') @ zfill 2 (str_digits \<bar>k'\<bar>))"

definition format_e6 :: "pyfloat \<Rightarrow> string" where
  "format_e6 v =
     (case v of
        NaN \<Rightarrow> ''nan''
      | Infinity s \<Rightarrow> (if s then ''-inf'' else ''inf'')
      | Finite s m e \<Rightarrow>
          (if s then ''-'' else []) @
          (if m = 0 then ''0.000000e+00''
           else
             let p = (if 0 \<le> e then int m * 2 ^ nat e else int m);
                 q = (if 0 \<le> e then 1 else 2 ^ nat (- e));
                 k = decimal_exponent p q
             in render_e6 (scaled_mantissa p q k) k))"

text \<open>
  \<open>s.split()\<close>: the maximal runs of non-whitespace characters of \<open>s\<close>. The second
  argument of \<open>split_from\<close> is the run being read, reversed.
\<close>

definition is_space :: "char \<Rightarrow> bool" where
  "is_space c = (c \<in> set [CHR '' '', CHR 0x09, CHR 0x0A, CHR 0x0B, CHR 0x0C, CHR 0x0D,
                          CHR 0x1C, CHR 0x1D, CHR 0x1E, CHR 0x1F])"

fun split_from :: "string \<Rightarrow> string \<Rightarrow> string list" where
  "split_from [] acc = (if acc = [] then [] else [rev acc])"
| "split_from (c # cs) acc =
     (if is_space c then (if acc = [] then split_from cs [] else rev acc # split_from cs [])
      else split_from cs (c # acc))"

definition str_split :: "string \<Rightarrow> string list" where
  "str_split s = split_from s []"

subsection \<open>The data model\<close>

text \<open>
  \<open>SubCircuit\<close> inherits every attribute of \<open>NetList\<close> (the first five fields, set by
  \<open>super().__init__()\<close>) and adds its own. \<open>subcircuit_filepath\<close> exists only after
  \<open>load_from_file\<close> (\<open>hasattr\<close> is \<open>\<noteq> None\<close>).
\<close>

datatype SubCircuit = SubCircuit
  (sc_filepath: string)
  (sc_subcircuits: "SubCircuit list")
  (sc_devices: "string list")
  (sc_count_device_dict: "(string \<times> int) list")
  (sc_count_device_total: int)
  (name: string)
  (ext_nodes: "string list")
  (suffix: string)
  (comment: string)
  (start_line: string)
  (end_line: string)
  (subcircuit_filepath: "string option")

record NetList =
  filepath :: string
  subcircuits :: "SubCircuit list"
  devices :: "string list"
  count_device_dict :: "(string \<times> int) list"
  count_device_total :: int

text \<open>
  An argument of \<open>add_subcircuit\<close> and \<open>subcircuit_instance\<close> is any Python object. What
  the two methods observe of it is whether it is a \<open>SubCircuit\<close> and whether it has an
  attribute \<open>name\<close>; a \<open>str\<close> (which \<open>load_from_file\<close> passes) is neither.
\<close>

datatype pyobj = PySubCircuit SubCircuit | PyStr string

text \<open>\<open>NetList.__init__\<close>\<close>

definition NetList_init :: "string \<Rightarrow> NetList" where
  "NetList_init fp =
     \<lparr> filepath = fp, subcircuits = [], devices = [],
       count_device_dict = [(''R'', 0), (''C'', 0), (''L'', 0)],
       count_device_total = 0 \<rparr>"

definition get_subcircuit_names :: "NetList \<Rightarrow> string list" where
  "get_subcircuit_names self = map name (subcircuits self)"

text \<open>\<open>NetList.add_subcircuit\<close>\<close>

definition add_subcircuit :: "pyobj \<Rightarrow> NetList \<Rightarrow> NetList outcome" where
  "add_subcircuit subcircuit self =
     (case subcircuit of
        PySubCircuit sc \<Rightarrow>
          Done (self\<lparr> subcircuits := subcircuits self @ [sc],
                      count_device_dict := AList.update (name sc) 0 (count_device_dict self) \<rparr>)
      | PyStr _ \<Rightarrow> Raised TypeError self)"

text \<open>
  \<open>NetList.rlc_instance\<close>. The total is incremented before the per-device counter is
  read, so a missing key would leave the total incremented.
\<close>

definition rlc_instance :: "string \<Rightarrow> string list \<Rightarrow> pyfloat \<Rightarrow> NetList \<Rightarrow> NetList outcome" where
  "rlc_instance device nodes val self =
     (if device \<in> set [''R'', ''L'', ''C''] then
        (let s1 = self\<lparr> count_device_total := count_device_total self + 1 \<rparr>
         in case map_of (count_device_dict s1) device of
              None \<Rightarrow> Raised KeyError s1
            | Some c \<Rightarrow>
                (let s2 = s1\<lparr> count_device_dict := AList.update device (c + 1) (count_device_dict s1) \<rparr>;
                     new_line = device @ str_int (c + 1) @ '' '' @ join_space nodes @ '' '' @
                                format_e6 val @ END_OF_LINE
                 in Done (s2\<lparr> devices := devices s2 @ [new_line] \<rparr>)))
      else Raised ValueError self)"

text \<open>\<open>NetList.subcircuit_instance\<close>\<close>

definition subcircuit_instance :: "pyobj \<Rightarrow> string list \<Rightarrow> NetList \<Rightarrow> NetList outcome" where
  "subcircuit_instance subcircuit nodes self =
     (case subcircuit of
        PyStr _ \<Rightarrow> Raised AttributeError self
      | PySubCircuit sc \<Rightarrow>
          if name sc \<in> set (get_subcircuit_names self) then
            (let s1 = self\<lparr> count_device_total := count_device_total self + 1 \<rparr>
             in case map_of (count_device_dict s1) (name sc) of
                  None \<Rightarrow> Raised KeyError s1
                | Some c \<Rightarrow>
                    (let s2 = s1\<lparr> count_device_dict :=
                                     AList.update (name sc) (c + 1) (count_device_dict s1) \<rparr>;
                         subcircuit_number = zfill ZFILL_WIDTH (str_int (c + 1));
                         new_line = ''X_'' @ suffix sc @ ''_'' @ subcircuit_number @ '' '' @
                                    join_space nodes @ '' '' @ name sc @ END_OF_LINE
                     in Done (s2\<lparr> devices := devices s2 @ [new_line] \<rparr>)))
          else Raised ValueError self)"

subsection \<open>Sequences of calls made by a client\<close>

text \<open>
  A client builds a netlist by a sequence of the three construction calls. \<open>run\<close> makes
  the calls in order and stops at the first exception, as the Python program would.
\<close>

datatype operation =
    AddSubcircuit pyobj
  | RlcInstance string "string list" pyfloat
  | SubcircuitInstance pyobj "string list"

fun apply_operation :: "operation \<Rightarrow> NetList \<Rightarrow> NetList outcome" where
  "apply_operation (AddSubcircuit subcircuit) self = add_subcircuit subcircuit self"
| "apply_operation (RlcInstance device nodes val) self = rlc_instance device nodes val self"
| "apply_operation (SubcircuitInstance subcircuit nodes) self =
     subcircuit_instance subcircuit nodes self"

fun run :: "operation list \<Rightarrow> NetList \<Rightarrow> NetList outcome" where
  "run [] self = Done self"
| "run (x # xs) self =
     (case apply_operation x self of
        Done self' \<Rightarrow> run xs self'
      | Raised e self' \<Rightarrow> Raised e self')"

subsection \<open>The sub-circuit object\<close>

text \<open>
  The methods inherited from \<open>NetList\<close> act on the inherited attributes of a
  \<open>SubCircuit\<close>: \<open>as_NetList\<close> reads them, \<open>with_NetList\<close> stores them back.
\<close>

definition as_NetList :: "SubCircuit \<Rightarrow> NetList" where
  "as_NetList sc =
     \<lparr> filepath = sc_filepath sc, subcircuits = sc_subcircuits sc, devices = sc_devices sc,
       count_device_dict = sc_count_device_dict sc,
       count_device_total = sc_count_device_total sc \<rparr>"

definition with_NetList :: "NetList \<Rightarrow> SubCircuit \<Rightarrow> SubCircuit" where
  "with_NetList n sc =
     SubCircuit (filepath n) (subcircuits n) (devices n) (count_device_dict n)
       (count_device_total n) (name sc) (ext_nodes sc) (suffix sc) (comment sc)
       (start_line sc) (end_line sc) (subcircuit_filepath sc)"

definition update_start_line :: "SubCircuit \<Rightarrow> SubCircuit" where
  "update_start_line sc =
     SubCircuit (sc_filepath sc) (sc_subcircuits sc) (sc_devices sc) (sc_count_device_dict sc)
       (sc_count_device_total sc) (name sc) (ext_nodes sc) (suffix sc) (comment sc)
       (''.SUBCIRCUIT '' @ name sc @ '' '' @ join_space (ext_nodes sc) @ END_OF_LINE)
       (end_line sc) (subcircuit_filepath sc)"

definition update_end_line :: "SubCircuit \<Rightarrow> SubCircuit" where
  "update_end_line sc =
     SubCircuit (sc_filepath sc) (sc_subcircuits sc) (sc_devices sc) (sc_count_device_dict sc)
       (sc_count_device_total sc) (name sc) (ext_nodes sc) (suffix sc) (comment sc)
       (start_line sc) (''.ENDS '' @ name sc @ END_OF_LINE) (subcircuit_filepath sc)"

text \<open>\<open>SubCircuit.__init__\<close>\<close>

definition SubCircuit_init :: "string \<Rightarrow> string list \<Rightarrow> string \<Rightarrow> string \<Rightarrow> SubCircuit" where
  "SubCircuit_init nm external_nodes sfx cmt =
     update_end_line (update_start_line
       (SubCircuit [] [] [] [(''R'', 0), (''C'', 0), (''L'', 0)] 0
          nm external_nodes sfx cmt [] [] None))"

subsection \<open>Writing the netlist\<close>

text \<open>
  A file system maps a path to the text of the file there. \<open>open(path, 'w')\<close> creates
  or truncates the file, \<open>open(path, 'a+')\<close> creates it or keeps its text and writes at
  the end; opening is taken to succeed. Every stream here comes from \<open>open\<close> in text
  mode, so the \<open>isinstance(f, io.TextIOWrapper)\<close> tests hold and \<open>f.closed\<close> is false
  inside the \<open>with\<close> block; each writer is modelled by the text it writes to \<open>f\<close>.
  The date and the time of the header come from the clock; they are parameters.
\<close>

type_synonym filesystem = "string \<Rightarrow> string option"

definition open_w :: "string \<Rightarrow> filesystem \<Rightarrow> string" where
  "open_w path fs = []"

definition open_a :: "string \<Rightarrow> filesystem \<Rightarrow> string" where
  "open_a path fs = (case fs path of None \<Rightarrow> [] | Some old \<Rightarrow> old)"

definition write_comment :: "string \<Rightarrow> string" where
  "write_comment cmt = (if length cmt \<noteq> 0 then ''*** '' @ cmt @ END_OF_LINE else [])"

definition header_text :: "string \<Rightarrow> string \<Rightarrow> string" where
  "header_text date_today time_now =
     write_comment ''Generated for: SPICE'' @
     write_comment ''By: simulation.spice python package'' @
     write_comment (''On: '' @ date_today) @
     write_comment (''At: '' @ time_now) @
     write_comment '' ''"

text \<open>
  \<open>SubCircuit._write_subcircuit\<close>: the start line and the end line are recomputed from
  the name and the external nodes before they are written.
\<close>

fun write_subcircuit :: "SubCircuit \<Rightarrow> string" where
  "write_subcircuit (SubCircuit fp subs devs cnt tot nm nodes sfx cmt sl el sfp) =
     write_comment cmt @
     start_line (update_start_line (SubCircuit fp subs devs cnt tot nm nodes sfx cmt sl el sfp)) @
     concat devs @
     concat (map (\<lambda>sub.
        write_comment '' '' @
        write_comment ''Inner subcircuit'' @
        (case subcircuit_filepath sub of
           Some p \<Rightarrow> write_comment (''subcircuit loaded from : '' @ p)
         | None \<Rightarrow> []) @
        write_subcircuit sub) subs) @
     end_line (update_end_line (SubCircuit fp subs devs cnt tot nm nodes sfx cmt sl el sfp))"

definition subcircuits_text :: "NetList \<Rightarrow> string" where
  "subcircuits_text self =
     write_comment ''subcircuits'' @ concat (map write_subcircuit (subcircuits self))"

definition instances_text :: "NetList \<Rightarrow> string" where
  "instances_text self = write_comment ''Instances'' @ concat (devices self)"

definition write_header :: "string \<Rightarrow> string \<Rightarrow> NetList \<Rightarrow> filesystem \<Rightarrow> filesystem" where
  "write_header date_today time_now self fs =
     fs (filepath self \<mapsto> open_w (filepath self) fs @ header_text date_today time_now)"

definition write_subcircuits :: "NetList \<Rightarrow> filesystem \<Rightarrow> filesystem" where
  "write_subcircuits self fs =
     fs (filepath self \<mapsto> open_a (filepath self) fs @ subcircuits_text self)"

definition write_instances :: "NetList \<Rightarrow> filesystem \<Rightarrow> filesystem" where
  "write_instances self fs =
     fs (filepath self \<mapsto> open_a (filepath self) fs @ instances_text self)"

definition write_in_fpath :: "string \<Rightarrow> string \<Rightarrow> NetList \<Rightarrow> filesystem \<Rightarrow> filesystem" where
  "write_in_fpath date_today time_now self fs =
     write_instances self (write_subcircuits self (write_header date_today time_now self fs))"

subsection \<open>Loading a sub-circuit from a file\<close>

text \<open>
  \<open>f.readline()\<close> on the text that is left to read: the next line with its newline (or
  the rest of the text when no newline is left), and what remains after it. At the end
  of the file it returns the empty string. The text is the content of the file as text
  mode delivers it, every line end being the newline character.
\<close>

fun readline :: "string \<Rightarrow> string \<times> string" where
  "readline [] = ([], [])"
| "readline (c # cs) =
     (if c = CHR 0x0A then ([c], cs)
      else (case readline cs of (l, r) \<Rightarrow> (c # l, r)))"

text \<open>
  The loop of \<open>load_from_file\<close>. \<open>line\<close> is the line read last, \<open>f\<close> the text left to
  read. The counter \<open>k\<close> of the source only numbers the printed message and is left out.
  \<open>float(split_line[-1])\<close> is the parameter \<open>parse_float\<close>, \<open>None\<close> where \<open>float\<close> raises
  \<open>ValueError\<close>. The indexing \<open>split_line[0][0]\<close> raises \<open>IndexError\<close> when the line has
  no token.
\<close>

function load_loop ::
  "(string \<Rightarrow> pyfloat option) \<Rightarrow> string \<Rightarrow> string \<Rightarrow> SubCircuit \<Rightarrow> SubCircuit outcome" where
  "load_loop parse_float line f self =
     (if line = [] then Done self
      else
        (case str_split (fst (readline f)) of
           [] \<Rightarrow> Raised IndexError self
         | tok # _ \<Rightarrow>
             (case tok of
                [] \<Rightarrow> Raised IndexError self
              | first_char # _ \<Rightarrow>
                  if first_char \<in> set [CHR ''R'', CHR ''L'', CHR ''C''] then
                    (case parse_float (last (str_split (fst (readline f)))) of
                       None \<Rightarrow> Raised ValueError self
                     | Some val \<Rightarrow>
                         (case rlc_instance [first_char]
                                 (butlast (tl (str_split (fst (readline f))))) val
                                 (as_NetList self) of
                            Raised e n \<Rightarrow> Raised e (with_NetList n self)
                          | Done n \<Rightarrow>
                              load_loop parse_float (fst (readline f)) (snd (readline f))
                                (with_NetList n self)))
                  else if first_char = CHR ''X'' then
                    (case subcircuit_instance (PyStr (last (str_split (fst (readline f)))))
                            (butlast (tl (str_split (fst (readline f))))) (as_NetList self) of
                       Raised e n \<Rightarrow> Raised e (with_NetList n self)
                     | Done n \<Rightarrow>
                         load_loop parse_float (fst (readline f)) (snd (readline f))
                           (with_NetList n self))
                  else if first_char \<in> set [CHR ''.''] then
                    (if tok = ''.ENDS'' then Done self
                     else load_loop parse_float (fst (readline f)) (snd (readline f)) self)
                  else load_loop parse_float (fst (readline f)) (snd (readline f)) self)))"
  by pat_completeness auto
termination
proof -
  have total_length: "length (fst (readline f)) + length (snd (readline f)) = length f"
    for f :: string
    by (induction f) (auto split: prod.splits)
  have shorter: "length (snd (readline f)) < length f"
    if "str_split (fst (readline f)) = t # ts" for f :: string and t ts
  proof -
    have "fst (readline f) \<noteq> []"
      using that by (auto simp: str_split_def)
    then have "0 < length (fst (readline f))"
      by simp
    then show ?thesis
      using total_length [of f] by linarith
  qed
  show ?thesis
    by (relation "measure (\<lambda>(parse_float, line, f, self). length f)") (auto intro: shorter)
qed

declare load_loop.simps [simp del]

text \<open>
  \<open>SubCircuit.load_from_file\<close>. The file is looked up in the file system; a missing file
  raises \<open>FileNotFoundError\<close> after the four attributes have been assigned. An empty
  \<open>name\<close> is replaced by the second token of the first line (\<open>IndexError\<close> when the line
  has fewer than two tokens), an empty list of external nodes by the tokens after it.
\<close>

definition load_from_file ::
  "(string \<Rightarrow> pyfloat option) \<Rightarrow> filesystem \<Rightarrow> string \<Rightarrow> string list \<Rightarrow> string \<Rightarrow> string \<Rightarrow>
     SubCircuit \<Rightarrow> SubCircuit outcome" where
  "load_from_file parse_float fs path external_nodes nm sfx self =
     (let self1 = SubCircuit (sc_filepath self) (sc_subcircuits self) (sc_devices self)
                    (sc_count_device_dict self) (sc_count_device_total self)
                    nm external_nodes sfx (comment self) (start_line self) (end_line self)
                    (Some path)
      in case fs path of
           None \<Rightarrow> Raised FileNotFoundError self1
         | Some text \<Rightarrow>
             (let line = fst (readline text);
                  f = snd (readline text);
                  split_line = str_split line
              in if nm = [] \<and> length split_line < 2 then Raised IndexError self1
                 else
                   (let self2 =
                          (if nm = [] then
                             update_end_line (update_start_line
                               (SubCircuit (sc_filepath self1) (sc_subcircuits self1)
                                  (sc_devices self1) (sc_count_device_dict self1)
                                  (sc_count_device_total self1)
                                  (split_line ! 1) (ext_nodes self1) (suffix self1)
                                  (comment self1) (start_line self1) (end_line self1)
                                  (subcircuit_filepath self1)))
                           else self1);
                        self3 =
                          (if ext_nodes self2 = [] then
                             SubCircuit (sc_filepath self2) (sc_subcircuits self2)
                               (sc_devices self2) (sc_count_device_dict self2)
                               (sc_count_device_total self2)
                               (name self2) (drop 2 split_line) (suffix self2)
                               (comment self2) (start_line self2) (end_line self2)
                               (subcircuit_filepath self2)
                           else self2)
                    in load_loop parse_float line f self3)))"

subsection \<open>Example inputs\<close>

definition opamp :: SubCircuit where
  "opamp = SubCircuit_init ''OPAMP'' [''in'', ''out''] ''AMP'' []"



definition one_kilo :: pyfloat where
  "one_kilo = Finite False 1000 0"

definition netlist_with_opamp :: NetList where
  "netlist_with_opamp =
     \<lparr> filepath = [], subcircuits = [opamp], devices = [''X_AMP_00001 a b OPAMP\<newline>''],
       count_device_dict = [(''R'', 0), (''C'', 0), (''L'', 0), (''OPAMP'', 1)],
       count_device_total = 1 \<rparr>"


text \<open>
  A sub-circuit object in which \<open>OPAMP\<close> is registered, and files to load: a complete one,
  one with a blank line, one that refers to \<open>OPAMP\<close>, one that ends before \<open>.ENDS\<close>.
\<close>

definition amp_user :: SubCircuit where
  "amp_user =
     SubCircuit [] [opamp] [] [(''R'', 0), (''C'', 0), (''L'', 0), (''OPAMP'', 0)] 0
       [] [] [] [] (''.SUBCIRCUIT  '' @ END_OF_LINE) (''.ENDS '' @ END_OF_LINE) None"

definition parse_kilo :: "string \<Rightarrow> pyfloat option" where
  "parse_kilo s = (if s = ''1000.0'' then Some one_kilo else None)"

definition complete_file :: string where
  "complete_file = ''.SUBCIRCUIT A in out\<newline>.ENDS A\<newline>''"

definition blank_line_file :: string where
  "blank_line_file = ''.SUBCIRCUIT A in out\<newline>\<newline>.ENDS A\<newline>''"

definition instance_file :: string where
  "instance_file = ''.SUBCIRCUIT A in out\<newline>X_AMP_00001 in out OPAMP\<newline>.ENDS A\<newline>''"

definition unknown_instance_file :: string where
  "unknown_instance_file =
     ''.SUBCIRCUIT A in out\<newline>X_FLT_00001 in out FILTER\<newline>.ENDS A\<newline>''"


subsection \<open>Describing an input file\<close>




subsection \<open>Describing a sequence of calls\<close>









section \<open>Properties\<close>

subsection \<open>Facts about the counter registry\<close>

lemma map_of_update_counter:
  "map_of (AList.update k v d) = (map_of d)(k \<mapsto> v)"
  by (rule update_conv')

subsection \<open>Registration and instantiation\<close>

text \<open>
  C1 (as the code has it). \<open>add_subcircuit\<close> has no duplicate check and no
  \<open>DuplicateRegistration\<close> error: for every scope and every \<open>SubCircuit\<close>, registered
  already or not, it succeeds and appends the sub-circuit to \<open>subcircuits\<close>, leaving the
  devices, the total and the counters of all other names as they were. When the name has
  no counter yet, the name is entered in the counter registry with count 0.
\<close>

theorem add_subcircuit_appends_and_registers_new:
  "\<exists>self'. add_subcircuit (PySubCircuit sc) self = Done self' \<and>
     subcircuits self' = subcircuits self @ [sc] \<and>
     get_subcircuit_names self' = get_subcircuit_names self @ [name sc] \<and>
     devices self' = devices self \<and>
     count_device_total self' = count_device_total self \<and>
     filepath self' = filepath self \<and>
     (\<forall>k. k \<noteq> name sc \<longrightarrow>
        map_of (count_device_dict self') k = map_of (count_device_dict self) k) \<and>
     (map_of (count_device_dict self) (name sc) = None \<longrightarrow>
        map_of (count_device_dict self') (name sc) = Some 0)"
  by (simp add: add_subcircuit_def get_subcircuit_names_def map_of_update_counter)

theorem add_subcircuit_appends_and_registers_new_witness:
  "map_of (count_device_dict (NetList_init [])) (name opamp) = None \<and>
   (\<exists>self'. add_subcircuit (PySubCircuit opamp) (NetList_init []) = Done self' \<and>
      subcircuits self' = [opamp] \<and>
      devices self' = [] \<and>
      count_device_total self' = 0 \<and>
      map_of (count_device_dict self') (name opamp) = Some 0)"
proof -
  have new: "map_of (count_device_dict (NetList_init [])) (name opamp) = None"
    by code_simp
  have init: "subcircuits (NetList_init []) = [] \<and> devices (NetList_init []) = [] \<and>
      count_device_total (NetList_init []) = 0"
    by (simp add: NetList_init_def)
  show ?thesis
    using new init add_subcircuit_appends_and_registers_new [of opamp "NetList_init []"]
    by fastforce
qed

text \<open>
  C1 fails as stated: after \<open>OPAMP\<close> has been registered and instantiated once, registering
  it again does not fail. It succeeds and lists the sub-circuit twice, and the counter of
  the first registration does not stay at 1.
\<close>

theorem add_subcircuit_duplicate_counterexample:
  "run [AddSubcircuit (PySubCircuit opamp), SubcircuitInstance (PySubCircuit opamp) [''a'', ''b'']]
       (NetList_init []) = Done netlist_with_opamp \<and>
   name opamp \<in> set (get_subcircuit_names netlist_with_opamp) \<and>
   map_of (count_device_dict netlist_with_opamp) (name opamp) = Some 1 \<and>
   add_subcircuit (PySubCircuit opamp) netlist_with_opamp =
     Done (netlist_with_opamp
            \<lparr> subcircuits := [opamp, opamp],
              count_device_dict := [(''R'', 0), (''C'', 0), (''L'', 0), (''OPAMP'', 0)] \<rparr>)"
  by code_simp

text \<open>
  C2. When the name of the sub-circuit is not among the registered names of the scope,
  \<open>subcircuit_instance\<close> raises \<open>ValueError\<close> (the spec's \<open>UnregisteredSubcircuit\<close>) and the
  scope is exactly as before: counters, total and devices are unchanged.
\<close>

theorem subcircuit_instance_unregistered:
  assumes "name sc \<notin> set (get_subcircuit_names self)"
  shows "subcircuit_instance (PySubCircuit sc) nodes self = Raised ValueError self"
  using assms by (simp add: subcircuit_instance_def)

theorem subcircuit_instance_unregistered_witness:
  "name opamp \<notin> set (get_subcircuit_names (NetList_init [])) \<and>
   subcircuit_instance (PySubCircuit opamp) [''a'', ''b''] (NetList_init []) =
     Raised ValueError (NetList_init [])"
proof -
  have unregistered: "name opamp \<notin> set (get_subcircuit_names (NetList_init []))"
    by (simp add: get_subcircuit_names_def NetList_init_def)
  show ?thesis
    using unregistered subcircuit_instance_unregistered [OF unregistered] by simp
qed

subsection \<open>Evaluating the built-ins\<close>



subsection \<open>Single successful calls\<close>

lemma rlc_instance_Done:
  assumes "device \<in> set [''R'', ''L'', ''C'']"
    and "map_of (count_device_dict self) device = Some c"
  shows "rlc_instance device nodes val self =
     Done (self\<lparr> count_device_total := count_device_total self + 1,
                 count_device_dict := AList.update device (c + 1) (count_device_dict self),
                 devices := devices self @
                   [device @ str_int (c + 1) @ '' '' @ join_space nodes @ '' '' @
                    format_e6 val @ END_OF_LINE] \<rparr>)"
  using assms by (simp add: rlc_instance_def Let_def)

lemma subcircuit_instance_Done:
  assumes "name sc \<in> set (get_subcircuit_names self)"
    and "map_of (count_device_dict self) (name sc) = Some c"
  shows "subcircuit_instance (PySubCircuit sc) nodes self =
     Done (self\<lparr> count_device_total := count_device_total self + 1,
                 count_device_dict := AList.update (name sc) (c + 1) (count_device_dict self),
                 devices := devices self @
                   [''X_'' @ suffix sc @ ''_'' @ zfill ZFILL_WIDTH (str_int (c + 1)) @ '' '' @
                    join_space nodes @ '' '' @ name sc @ END_OF_LINE] \<rparr>)"
  using assms by (simp add: subcircuit_instance_def Let_def)


subsection \<open>Counting RLC instances\<close>

lemma run_rlc_counts:
  assumes "\<forall>c \<in> set calls. fst c \<in> set [''R'', ''L'', ''C'']"
    and "\<forall>d \<in> set [''R'', ''L'', ''C'']. map_of (count_device_dict self) d \<noteq> None"
  shows "\<exists>self'. run (map (\<lambda>(device, nodes, val). RlcInstance device nodes val) calls) self =
            Done self' \<and>
          count_device_total self' = count_device_total self + int (length calls) \<and>
          (\<forall>d. map_of (count_device_dict self') d =
             map_option (\<lambda>c. c + int (length (filter (\<lambda>c. fst c = d) calls)))
               (map_of (count_device_dict self) d))"
  using assms
proof (induction calls arbitrary: self)
  case Nil
  show ?case
    by (simp add: option.map_ident)
next
  case (Cons call calls)
  obtain device nodes val where call: "call = (device, nodes, val)"
    by (cases call)
  have device: "device \<in> set [''R'', ''L'', ''C'']"
    using Cons.prems(1) call by simp
  then obtain c where c: "map_of (count_device_dict self) device = Some c"
    using Cons.prems(2) by blast
  define self1 where "self1 =
    self\<lparr> count_device_total := count_device_total self + 1,
          count_device_dict := AList.update device (c + 1) (count_device_dict self),
          devices := devices self @
            [device @ str_int (c + 1) @ '' '' @ join_space nodes @ '' '' @
             format_e6 val @ END_OF_LINE] \<rparr>"
  have step: "rlc_instance device nodes val self = Done self1"
    unfolding self1_def by (rule rlc_instance_Done [OF device c])
  have dict1: "map_of (count_device_dict self1) = (map_of (count_device_dict self))(device \<mapsto> c + 1)"
    by (simp add: self1_def map_of_update_counter)
  have keys1: "\<forall>d \<in> set [''R'', ''L'', ''C'']. map_of (count_device_dict self1) d \<noteq> None"
    using Cons.prems(2) by (simp add: dict1)
  have rest: "\<forall>c \<in> set calls. fst c \<in> set [''R'', ''L'', ''C'']"
    using Cons.prems(1) by simp
  from Cons.IH [OF rest keys1] obtain self' where
    run': "run (map (\<lambda>(device, nodes, val). RlcInstance device nodes val) calls) self1 = Done self'"
    and total': "count_device_total self' = count_device_total self1 + int (length calls)"
    and dict': "\<forall>d. map_of (count_device_dict self') d =
             map_option (\<lambda>c. c + int (length (filter (\<lambda>c. fst c = d) calls)))
               (map_of (count_device_dict self1) d)"
    by blast
  have "run (map (\<lambda>(device, nodes, val). RlcInstance device nodes val) (call # calls)) self =
          Done self'"
    by (simp add: call step run')
  moreover have "count_device_total self' = count_device_total self + int (length (call # calls))"
    by (simp add: total' self1_def)
  moreover have "map_of (count_device_dict self') d =
             map_option (\<lambda>c. c + int (length (filter (\<lambda>c. fst c = d) (call # calls))))
               (map_of (count_device_dict self) d)" for d
    using dict' [rule_format, of d] by (simp add: dict1 call c)
  ultimately show ?case
    by blast
qed

text \<open>
  C3. Any sequence of \<open>rlc_instance\<close> calls on a fresh \<open>NetList\<close> with device types drawn
  from R, L and C succeeds; afterwards the total count is the number of calls and the
  count of each type is the number of calls made with that type.
\<close>

theorem rlc_instance_counts:
  assumes "\<forall>c \<in> set calls. fst c \<in> set [''R'', ''L'', ''C'']"
  shows "\<exists>self'. run (map (\<lambda>(device, nodes, val). RlcInstance device nodes val) calls)
                    (NetList_init fp) = Done self' \<and>
          count_device_total self' = int (length calls) \<and>
          (\<forall>d \<in> set [''R'', ''L'', ''C''].
             map_of (count_device_dict self') d =
               Some (int (length (filter (\<lambda>c. fst c = d) calls))))"
proof -
  have keys: "\<forall>d \<in> set [''R'', ''L'', ''C'']. map_of (count_device_dict (NetList_init fp)) d \<noteq> None"
    by (simp add: NetList_init_def)
  from run_rlc_counts [OF assms keys] obtain self' where
    run': "run (map (\<lambda>(device, nodes, val). RlcInstance device nodes val) calls)
             (NetList_init fp) = Done self'"
    and total': "count_device_total self' =
                   count_device_total (NetList_init fp) + int (length calls)"
    and dict': "\<forall>d. map_of (count_device_dict self') d =
             map_option (\<lambda>c. c + int (length (filter (\<lambda>c. fst c = d) calls)))
               (map_of (count_device_dict (NetList_init fp)) d)"
    by blast
  have "count_device_total self' = int (length calls)"
    using total' by (simp add: NetList_init_def)
  moreover have "\<forall>d \<in> set [''R'', ''L'', ''C''].
             map_of (count_device_dict self') d =
               Some (int (length (filter (\<lambda>c. fst c = d) calls)))"
    using dict' by (simp add: NetList_init_def)
  ultimately show ?thesis
    using run' by blast
qed

theorem rlc_instance_counts_witness:
  "(\<exists>self'. run [RlcInstance ''R'' [''n1'', ''n2''] one_kilo, RlcInstance ''C'' [''n2'', ''0''] one_kilo,
                  RlcInstance ''R'' [''n2'', ''n3''] one_kilo] (NetList_init []) = Done self' \<and>
      count_device_total self' = 3 \<and>
      map_of (count_device_dict self') ''R'' = Some 2 \<and>
      map_of (count_device_dict self') ''L'' = Some 0 \<and>
      map_of (count_device_dict self') ''C'' = Some 1)"
proof -
  have types: "\<forall>c \<in> set [(''R'', [''n1'', ''n2''], one_kilo), (''C'', [''n2'', ''0''], one_kilo),
                 (''R'', [''n2'', ''n3''], one_kilo)]. fst c \<in> set [''R'', ''L'', ''C'']"
    by simp
  show ?thesis
    using rlc_instance_counts [OF types, of "[]"] by simp
qed

subsection \<open>The total and the sum of the counters\<close>














subsection \<open>Writing the file\<close>


lemma write_in_fpath_example:
  "write_in_fpath ''01/01/2025'' ''12:00:00'' netlist_with_opamp [[] \<mapsto> ''old text''] [] =
     Some (''*** Generated for: SPICE\<newline>'' @
           ''*** By: simulation.spice python package\<newline>'' @
           ''*** On: 01/01/2025\<newline>'' @
           ''*** At: 12:00:00\<newline>'' @
           ''***  \<newline>'' @
           ''*** subcircuits\<newline>'' @
           ''.SUBCIRCUIT OPAMP in out\<newline>'' @
           ''.ENDS OPAMP\<newline>'' @
           ''*** Instances\<newline>'' @
           ''X_AMP_00001 a b OPAMP\<newline>'')"
  by code_simp

subsection \<open>Loading: lines the loop cannot handle\<close>

lemma with_NetList_as_NetList: "with_NetList (as_NetList self) self = self"
  by (cases self) (simp add: with_NetList_def as_NetList_def)






lemma amp_user_built:
  "add_subcircuit (PySubCircuit opamp) (as_NetList (SubCircuit_init [] [] [] [])) =
     Done (as_NetList amp_user) \<and>
   with_NetList (as_NetList amp_user) (SubCircuit_init [] [] [] []) = amp_user"
  by code_simp

text \<open>
  A line whose first token starts with X: the loop passes the last token, a \<open>str\<close>, to
  \<open>subcircuit_instance\<close>, which reads its attribute \<open>name\<close>. Whatever is registered, the
  result is \<open>AttributeError\<close> and nothing is created.
\<close>

lemma load_loop_X_line:
  assumes "line \<noteq> []" and "str_split (fst (readline f)) = (CHR ''X'' # rest) # toks"
  shows "load_loop parse_float line f self = Raised AttributeError self"
  using assms
  by (subst load_loop.simps) (simp add: subcircuit_instance_def with_NetList_as_NetList)

text \<open>A line without a token, such as a blank line: \<open>split_line[0]\<close> raises \<open>IndexError\<close>.\<close>

lemma load_loop_blank_line:
  assumes "line \<noteq> []" and "str_split (fst (readline f)) = []"
  shows "load_loop parse_float line f self = Raised IndexError self"
  using assms by (subst load_loop.simps) simp

text \<open>
  C6 (the code at the failing inputs). The file has a line
  \<open>X_AMP_00001 in out OPAMP\<close> and \<open>OPAMP\<close> is registered in the sub-circuit being built:
  the load raises \<open>AttributeError\<close> instead of creating the instance. With a line that
  refers to \<open>FILTER\<close>, which is not registered, the load raises \<open>AttributeError\<close> too, not
  the \<open>ValueError\<close> of an unregistered sub-circuit.
\<close>

theorem load_from_file_instance_line:
  "name opamp \<in> set (get_subcircuit_names (as_NetList amp_user)) \<and>
   load_from_file parse_kilo [''f.cir'' \<mapsto> instance_file] ''f.cir'' [] [] ''S'' amp_user =
     Raised AttributeError
       (SubCircuit [] [opamp] [] [(''R'', 0), (''C'', 0), (''L'', 0), (''OPAMP'', 0)] 0
          ''A'' [''in'', ''out''] ''S'' [] ''.SUBCIRCUIT A \<newline>'' ''.ENDS A\<newline>''
          (Some ''f.cir'')) \<and>
   ''FILTER'' \<notin> set (get_subcircuit_names (as_NetList amp_user)) \<and>
   load_from_file parse_kilo [''f.cir'' \<mapsto> unknown_instance_file] ''f.cir'' [] [] ''S'' amp_user =
     Raised AttributeError
       (SubCircuit [] [opamp] [] [(''R'', 0), (''C'', 0), (''L'', 0), (''OPAMP'', 0)] 0
          ''A'' [''in'', ''out''] ''S'' [] ''.SUBCIRCUIT A \<newline>'' ''.ENDS A\<newline>''
          (Some ''f.cir''))"
  by code_simp

text \<open>
  C7 (the code at the failing input). The file has a blank line between the header line
  and the \<open>.ENDS\<close> line: the load raises \<open>IndexError\<close> at the blank line and never reaches
  the \<open>.ENDS\<close> line. Without the blank line the same file loads.
\<close>

theorem load_from_file_blank_line:
  "load_from_file parse_kilo [''f.cir'' \<mapsto> blank_line_file] ''f.cir'' [] [] ''S'' amp_user =
     Raised IndexError
       (SubCircuit [] [opamp] [] [(''R'', 0), (''C'', 0), (''L'', 0), (''OPAMP'', 0)] 0
          ''A'' [''in'', ''out''] ''S'' [] ''.SUBCIRCUIT A \<newline>'' ''.ENDS A\<newline>''
          (Some ''f.cir'')) \<and>
   load_from_file parse_kilo [''f.cir'' \<mapsto> complete_file] ''f.cir'' [] [] ''S'' amp_user =
     Done
       (SubCircuit [] [opamp] [] [(''R'', 0), (''C'', 0), (''L'', 0), (''OPAMP'', 0)] 0
          ''A'' [''in'', ''out''] ''S'' [] ''.SUBCIRCUIT A \<newline>'' ''.ENDS A\<newline>''
          (Some ''f.cir''))"
  by code_simp

subsection \<open>Loading: the end of the input\<close>





subsection \<open>The shape of a formatted value\<close>














subsection \<open>The line of an RLC instance\<close>



subsection \<open>Indices of sub-circuit instances\<close>







end
